theory Spec2Isabelle
  imports Main "HOL-Library.Multiset"
begin

section \<open>Python values, exceptions and string methods\<close>

text \<open>
  The module \<^verbatim>\<open>marker/processors/llm/__init__.py\<close> works on JSON-decoded
  values, on strings and on a document of blocks. A Python value that
  \<^verbatim>\<open>json.loads\<close> can return is a \<open>pyval\<close>; a float takes the same branch as
  an integer in every operation below and is not given a constructor of its
  own. A dictionary is an association list read with \<open>map_of\<close>. A \<open>char\<close> is
  a code point below 256.

  \<open>py_exc\<close> ranges over instances of Python's \<^verbatim>\<open>Exception\<close>: exactly what
  the \<^verbatim>\<open>except Exception\<close> clauses of the module catch.
\<close>

datatype py_exc =
    KeyError
  | TypeError
  | AttributeError
  | ValueError
  | ValidationError
  | JSONDecodeError
  | NotImplementedError
  | RuntimeError string

datatype pyval =
    PNone
  | PBool bool
  | PInt int
  | PStr string
  | PList "pyval list"
  | PDict "(string \<times> pyval) list"

text \<open>\<^verbatim>\<open>v[key]\<close> for a string key: only a dict can be subscripted by a string.\<close>

fun getitem :: "pyval \<Rightarrow> string \<Rightarrow> py_exc + pyval" where
  "getitem (PDict kvs) k = (case map_of kvs k of None \<Rightarrow> Inl KeyError | Some v \<Rightarrow> Inr v)"
| "getitem v k = Inl TypeError"

text \<open>
  \<^verbatim>\<open>str.strip()\<close> removes the characters for which \<^verbatim>\<open>str.isspace\<close> holds from
  both ends; below 256 these are the code points listed in \<open>is_space\<close>.
\<close>

definition is_space :: "char \<Rightarrow> bool" where
  "is_space c = (of_char c \<in> {9, 10, 11, 12, 13, 28, 29, 30, 31, 32, 133, 160 :: nat})"

definition strip :: "string \<Rightarrow> string" where
  "strip s = rev (dropWhile is_space (rev (dropWhile is_space s)))"

text \<open>\<^verbatim>\<open>v.strip()\<close> on a value: every type but \<^verbatim>\<open>str\<close> lacks the method.\<close>

fun strip_method :: "pyval \<Rightarrow> py_exc + string" where
  "strip_method (PStr s) = Inr (strip s)"
| "strip_method v = Inl AttributeError"

text \<open>\<^verbatim>\<open>s.lstrip("/")\<close>.\<close>

definition lstrip_slash :: "string \<Rightarrow> string" where
  "lstrip_slash s = dropWhile (\<lambda>c. c = CHR ''/'') s"

text \<open>\<^verbatim>\<open>s.split(sep)\<close> for a one-character separator: never the empty list.\<close>

fun split :: "char \<Rightarrow> string \<Rightarrow> string list" where
  "split sep [] = [[]]"
| "split sep (c # cs) =
     (if c = sep then [] # split sep cs
      else (case split sep cs of [] \<Rightarrow> [[c]] | w # ws \<Rightarrow> (c # w) # ws))"

section \<open>Block addresses, blocks and the document\<close>

text \<open>
  \<^verbatim>\<open>BlockId\<close>, \<^verbatim>\<open>BlockTypes\<close>, \<^verbatim>\<open>Block\<close> and \<^verbatim>\<open>Document\<close> are imported by the
  module and declared elsewhere. The fields of \<open>BlockId\<close> are the three the
  module passes to its constructor. The enumeration \<^verbatim>\<open>BlockTypes\<close> is a
  parameter of the model: the list \<open>types\<close> of its member names.
\<close>

record BlockId =
  page_id :: string
  block_id :: string
  block_type :: string

text \<open>\<^verbatim>\<open>getattr(BlockTypes, name)\<close>: the member of that name, or AttributeError.\<close>

definition getattr_BlockTypes :: "string list \<Rightarrow> string \<Rightarrow> py_exc + string" where
  "getattr_BlockTypes types name = (if name \<in> set types then Inr name else Inl AttributeError)"

text \<open>
  Modelled from the spec: the constructor of \<^verbatim>\<open>BlockId\<close> (missing from the
  sources). The spec's address codec rejects an empty segment; the segment
  count and the type name are checked by the module itself, so the constructor
  is the place where an empty \<open>page_id\<close> or \<open>block_id\<close> is refused.
\<close>

definition BlockId_init :: "string \<Rightarrow> string \<Rightarrow> string \<Rightarrow> py_exc + BlockId" where
  "BlockId_init p b t =
     (if p = [] \<or> b = [] then Inl ValidationError
      else Inr \<lparr>page_id = p, block_id = b, block_type = t\<rparr>)"

text \<open>
  A block, as far as the module reads and writes it: \<open>html = None\<close> is a block
  whose class has no \<^verbatim>\<open>html\<close> attribute (\<^verbatim>\<open>hasattr(block, "html")\<close> is false).
  The document is seen through \<^verbatim>\<open>document.get_block\<close>: the spec's
  \<^verbatim>\<open>document.lookup(address) -> block | not-found\<close>.
\<close>

record block =
  html :: "pyval option"

type_synonym document = "BlockId \<rightharpoonup> block"

datatype log_entry =
    Debug_not_found BlockId
  | Debug_parse_error pyval py_exc
  | Warning_error py_exc
  | Traceback py_exc

record state =
  doc :: document
  log :: "log_entry list"

definition get_block :: "document \<Rightarrow> BlockId \<Rightarrow> block option" where
  "get_block d a = d a"

section \<open>handle_rewrites\<close>

text \<open>
  Lines 113 to 119: the address of a record is read from its \<^verbatim>\<open>id\<close>.
  \<^verbatim>\<open>
  block_id = block_data["id"].strip().lstrip("/")
  _, page_id, block_type, block_id = block_id.split("/")
  block_id = BlockId(page_id=page_id, block_id=block_id,
                     block_type=getattr(BlockTypes, block_type))
  \<close>
  The unpacking raises ValueError unless the split has exactly four parts.
\<close>

definition decode_id :: "string list \<Rightarrow> pyval \<Rightarrow> py_exc + BlockId" where
  "decode_id types v =
     (case strip_method v of
        Inl e \<Rightarrow> Inl e
      | Inr s \<Rightarrow>
          (case split (CHR ''/'') (lstrip_slash s) of
             [root, p, t, b] \<Rightarrow>
               (case getattr_BlockTypes types t of
                  Inl e \<Rightarrow> Inl e
                | Inr ty \<Rightarrow> BlockId_init p b ty)
           | parts \<Rightarrow> Inl ValueError))"

text \<open>
  The segments that line 114 unpacks: the text stripped of surrounding white
  space and of leading separators, split at the separators.
\<close>

definition segments :: "string \<Rightarrow> string list" where
  "segments s = split (CHR ''/'') (lstrip_slash (strip s))"

text \<open>
  The body of the \<^verbatim>\<open>try\<close> (lines 113 to 126) for one record. Nothing is
  written before the last statement, so an exception leaves the state as it
  was.
\<close>

definition try_body :: "string list \<Rightarrow> state \<Rightarrow> pyval \<Rightarrow> py_exc + state" where
  "try_body types s block_data =
     (case getitem block_data ''id'' of
        Inl e \<Rightarrow> Inl e
      | Inr v \<Rightarrow>
          (case decode_id types v of
             Inl e \<Rightarrow> Inl e
           | Inr a \<Rightarrow>
               (case get_block (doc s) a of
                  None \<Rightarrow> Inr (s\<lparr>log := log s @ [Debug_not_found a]\<rparr>)
                | Some blk \<Rightarrow>
                    (case html blk of
                       None \<Rightarrow> Inr s
                     | Some old \<Rightarrow>
                         (case getitem block_data ''html'' of
                            Inl e \<Rightarrow> Inl e
                          | Inr h \<Rightarrow> Inr (s\<lparr>doc := (doc s)(a \<mapsto> blk\<lparr>html := Some h\<rparr>)\<rparr>))))))"

text \<open>
  One iteration of the loop: the \<^verbatim>\<open>try\<close> and its handler (lines 127 to 129).
  The handler formats its message from \<^verbatim>\<open>block_data['id']\<close>, a second read of
  the record that can raise in its turn; that exception leaves the loop.
\<close>

definition handle_record :: "string list \<Rightarrow> state \<Rightarrow> pyval \<Rightarrow> py_exc + state" where
  "handle_record types s block_data =
     (case try_body types s block_data of
        Inr s' \<Rightarrow> Inr s'
      | Inl e \<Rightarrow>
          (case getitem block_data ''id'' of
             Inl e' \<Rightarrow> Inl e'
           | Inr v \<Rightarrow> Inr (s\<lparr>log := log s @ [Debug_parse_error v e]\<rparr>)))"

text \<open>
  The loop of \<^verbatim>\<open>handle_rewrites\<close>: the state it leaves, and the exception that
  left it, if one did.
\<close>

fun handle_rewrites :: "string list \<Rightarrow> pyval list \<Rightarrow> state \<Rightarrow> py_exc option \<times> state" where
  "handle_rewrites types [] s = (None, s)"
| "handle_rewrites types (b # bs) s =
     (case handle_record types s b of
        Inl e \<Rightarrow> (Some e, s)
      | Inr s' \<Rightarrow> handle_rewrites types bs s')"

text \<open>The state one record leaves when its iteration stays in the loop.\<close>

definition record_effect :: "string list \<Rightarrow> state \<Rightarrow> pyval \<Rightarrow> state" where
  "record_effect types s b = (case handle_record types s b of Inl e \<Rightarrow> s | Inr s' \<Rightarrow> s')"

fun is_dict :: "pyval \<Rightarrow> bool" where
  "is_dict (PDict kvs) = True"
| "is_dict v = False"

fun has_id :: "pyval \<Rightarrow> bool" where
  "has_id (PDict kvs) = (map_of kvs ''id'' \<noteq> None)"
| "has_id v = False"

section \<open>load_blocks and the JSON documents it decodes\<close>

text \<open>
  \<^verbatim>\<open>load_blocks\<close> (lines 107 and 108) is the list comprehension
  \<^verbatim>\<open>[json.loads(block) for block in response["blocks"]]\<close>: the records are
  decoded from left to right and the first exception leaves the
  comprehension, with no list built. \<open>raws\<close> is \<^verbatim>\<open>response["blocks"]\<close>, a list
  of strings (the batch result format), and \<open>loads\<close> is the decoder, a
  parameter: what is proved of \<open>load_blocks\<close> holds for every decoder.
\<close>

fun load_blocks :: "(string \<Rightarrow> py_exc + pyval) \<Rightarrow> string list \<Rightarrow> py_exc + pyval list" where
  "load_blocks loads [] = Inr []"
| "load_blocks loads (r # rs) =
     (case loads r of
        Inl e \<Rightarrow> Inl e
      | Inr v \<Rightarrow>
          (case load_blocks loads rs of
             Inl e \<Rightarrow> Inl e
           | Inr vs \<Rightarrow> Inr (v # vs)))"

text \<open>
  The rewrite applier: \<^verbatim>\<open>handle_rewrites(load_blocks(response), document)\<close>,
  as the processors built on this module call the two.
\<close>

definition apply_rewrites ::
  "(string \<Rightarrow> py_exc + pyval) \<Rightarrow> string list \<Rightarrow> string list \<Rightarrow> state \<Rightarrow> py_exc option \<times> state" where
  "apply_rewrites loads types raws s =
     (case load_blocks loads raws of
        Inl e \<Rightarrow> (Some e, s)
      | Inr blocks \<Rightarrow> handle_rewrites types blocks s)"

text \<open>
  \<^verbatim>\<open>json.loads\<close> on a fragment of JSON, for the concrete batches evaluated
  below: objects, arrays, strings without escape sequences, integers,
  \<^verbatim>\<open>true\<close>, \<^verbatim>\<open>false\<close> and \<^verbatim>\<open>null\<close>, separated by JSON whitespace. A document
  outside the fragment (an escape, a fraction, an exponent) is refused here
  where the library may accept it; no theorem depends on the decoder's answer
  there. A later duplicate of a key replaces the earlier value. The parser is
  a recursive descent bounded by the length of the text.
\<close>

definition is_json_ws :: "char \<Rightarrow> bool" where
  "is_json_ws c = (of_char c \<in> {32, 9, 10, 13 :: nat})"

definition skip_ws :: "string \<Rightarrow> string" where
  "skip_ws s = dropWhile is_json_ws s"

fun scan_string :: "string \<Rightarrow> (string \<times> string) option" where
  "scan_string [] = None"
| "scan_string (c # cs) =
     (if c = CHR 0x22 then Some ([], cs)
      else if c = CHR 0x5C \<or> of_char c < (32 :: nat) then None
      else map_option (apfst ((#) c)) (scan_string cs))"

definition is_digit :: "char \<Rightarrow> bool" where
  "is_digit c = (48 \<le> (of_char c :: nat) \<and> (of_char c :: nat) \<le> 57)"

definition digits_value :: "string \<Rightarrow> int" where
  "digits_value ds = foldl (\<lambda>a c. 10 * a + (of_char c - 48)) 0 ds"

text \<open>An integer: \<^verbatim>\<open>0\<close> or a digit string without a leading zero.\<close>

definition scan_nat :: "string \<Rightarrow> (int \<times> string) option" where
  "scan_nat s =
     (case takeWhile is_digit s of
        [] \<Rightarrow> None
      | d # ds \<Rightarrow>
          if d = CHR ''0'' then Some (0, tl s)
          else Some (digits_value (d # ds), dropWhile is_digit s))"

definition scan_atom :: "string \<Rightarrow> (pyval \<times> string) option" where
  "scan_atom s =
     (if take 4 s = ''true'' then Some (PBool True, drop 4 s)
      else if take 5 s = ''false'' then Some (PBool False, drop 5 s)
      else if take 4 s = ''null'' then Some (PNone, drop 4 s)
      else if take 1 s = ''-'' then map_option (apfst (\<lambda>n. PInt (- n))) (scan_nat (drop 1 s))
      else map_option (apfst PInt) (scan_nat s))"

fun dict_set :: "(string \<times> pyval) list \<Rightarrow> string \<Rightarrow> pyval \<Rightarrow> (string \<times> pyval) list" where
  "dict_set [] k v = [(k, v)]"
| "dict_set ((k', v') # kvs) k v =
     (if k' = k then (k, v) # kvs else (k', v') # dict_set kvs k v)"

definition dict_of_pairs :: "(string \<times> pyval) list \<Rightarrow> pyval" where
  "dict_of_pairs kvs = PDict (foldl (\<lambda>d kv. dict_set d (fst kv) (snd kv)) [] kvs)"

fun parse_value :: "nat \<Rightarrow> string \<Rightarrow> (pyval \<times> string) option"
  and parse_elements :: "nat \<Rightarrow> string \<Rightarrow> (pyval list \<times> string) option"
  and parse_members :: "nat \<Rightarrow> string \<Rightarrow> ((string \<times> pyval) list \<times> string) option"
where
  "parse_value 0 s = None"
| "parse_value (Suc n) s =
     (case skip_ws s of
        [] \<Rightarrow> None
      | c # r \<Rightarrow>
          if c = CHR ''{'' then
            (case skip_ws r of
               [] \<Rightarrow> None
             | c' # r' \<Rightarrow>
                 if c' = CHR ''}'' then Some (PDict [], r')
                 else map_option (apfst dict_of_pairs) (parse_members n (c' # r')))
          else if c = CHR ''['' then
            (case skip_ws r of
               [] \<Rightarrow> None
             | c' # r' \<Rightarrow>
                 if c' = CHR '']'' then Some (PList [], r')
                 else map_option (apfst PList) (parse_elements n (c' # r')))
          else if c = CHR 0x22 then map_option (apfst PStr) (scan_string r)
          else scan_atom (c # r))"
| "parse_elements 0 s = None"
| "parse_elements (Suc n) s =
     (case parse_value n s of
        None \<Rightarrow> None
      | Some (v, r) \<Rightarrow>
          (case skip_ws r of
             [] \<Rightarrow> None
           | c # r' \<Rightarrow>
               if c = CHR '','' then map_option (apfst ((#) v)) (parse_elements n r')
               else if c = CHR '']'' then Some ([v], r')
               else None))"
| "parse_members 0 s = None"
| "parse_members (Suc n) s =
     (case skip_ws s of
        [] \<Rightarrow> None
      | c # r \<Rightarrow>
          if c \<noteq> CHR 0x22 then None
          else
            (case scan_string r of
               None \<Rightarrow> None
             | Some (k, r1) \<Rightarrow>
                 (case skip_ws r1 of
                    [] \<Rightarrow> None
                  | c1 # r2 \<Rightarrow>
                      if c1 \<noteq> CHR '':'' then None
                      else
                        (case parse_value n r2 of
                           None \<Rightarrow> None
                         | Some (v, r3) \<Rightarrow>
                             (case skip_ws r3 of
                                [] \<Rightarrow> None
                              | c3 # r4 \<Rightarrow>
                                  if c3 = CHR '','' then
                                    map_option (apfst ((#) (k, v))) (parse_members n r4)
                                  else if c3 = CHR ''}'' then Some ([(k, v)], r4)
                                  else None)))))"

definition json_loads :: "string \<Rightarrow> py_exc + pyval" where
  "json_loads s =
     (case parse_value (Suc (length s)) s of
        None \<Rightarrow> Inl JSONDecodeError
      | Some (v, r) \<Rightarrow> if skip_ws r = [] then Inr v else Inl JSONDecodeError)"


section \<open>The address codec of the spec\<close>

text \<open>
  Modelled from the spec: \<^verbatim>\<open>str(block.id)\<close>, the encoder that
  \<^verbatim>\<open>normalize_block_json\<close> calls at line 99 and that is defined with \<^verbatim>\<open>BlockId\<close>
  outside the sources. The spec gives the canonical text
  \<^verbatim>\<open>"/<root>/<page_id>/<block_type>/<block_id>"\<close>; the root segment is a
  parameter.
\<close>

definition encode :: "string \<Rightarrow> BlockId \<Rightarrow> string" where
  "encode root a =
     ''/'' @ root @ ''/'' @ page_id a @ ''/'' @ block_type a @ ''/'' @ block_id a"

text \<open>
  The addresses the encoder is meant for: no segment is empty or holds a
  separator, the type is a member of the enumeration, and the text does not
  end in white space (which \<^verbatim>\<open>strip\<close> would remove).
\<close>

definition segment_ok :: "string \<Rightarrow> bool" where
  "segment_ok w = (w \<noteq> [] \<and> CHR ''/'' \<notin> set w)"

definition wf_address :: "string list \<Rightarrow> string \<Rightarrow> BlockId \<Rightarrow> bool" where
  "wf_address types root a =
     (segment_ok root \<and> segment_ok (page_id a) \<and> segment_ok (block_type a) \<and>
      segment_ok (block_id a) \<and> block_type a \<in> set types \<and> \<not> is_space (last (block_id a)))"



section \<open>What a batch writes\<close>





section \<open>The processors\<close>

text \<open>
  The configuration of \<^verbatim>\<open>BaseLLMProcessor\<close> (lines 42 to 58) and the service
  bound by \<^verbatim>\<open>__init__\<close> (lines 60 to 67). \<^verbatim>\<open>image_expansion_ratio\<close>, a float
  used only to crop images, is left out.
\<close>

record config =
  max_concurrency :: int
  use_llm :: bool
  disable_tqdm :: bool

record 'svc processor = config +
  llm_service :: "'svc option"

definition init :: "'svc option \<Rightarrow> config \<Rightarrow> 'svc processor" where
  "init service c =
     \<lparr>max_concurrency = max_concurrency c, use_llm = use_llm c, disable_tqdm = disable_tqdm c,
      llm_service = (if \<not> use_llm c then None else service)\<rparr>"

text \<open>
  \<^verbatim>\<open>BaseLLMComplexBlockProcessor.__call__\<close> (lines 137 to 144). The method
  \<^verbatim>\<open>rewrite_blocks\<close> is the argument \<open>rewrite_blocks\<close>: the state it leaves and the
  exception it raised, if any.
\<close>

definition call_complex ::
  "(state \<Rightarrow> py_exc option \<times> state) \<Rightarrow> 'svc processor \<Rightarrow> state \<Rightarrow> py_exc option \<times> state" where
  "call_complex rewrite_blocks p s =
     (if \<not> use_llm p \<or> llm_service p = None then (None, s)
      else
        (case rewrite_blocks s of
           (None, s') \<Rightarrow> (None, s')
         | (Some e, s') \<Rightarrow> (None, s'\<lparr>log := log s' @ [Warning_error e]\<rparr>)))"

text \<open>
  \<^verbatim>\<open>BaseLLMSimpleBlockProcessor.__call__\<close> (lines 184 to 189); the handler also
  prints the traceback.
\<close>

definition call_simple ::
  "('r \<Rightarrow> 'p \<Rightarrow> state \<Rightarrow> py_exc option \<times> state) \<Rightarrow> 'r \<Rightarrow> 'p \<Rightarrow> state \<Rightarrow> py_exc option \<times> state" where
  "call_simple rewrite_block result prompt_data s =
     (case rewrite_block result prompt_data s of
        (None, s') \<Rightarrow> (None, s')
      | (Some e, s') \<Rightarrow> (None, s'\<lparr>log := log s' @ [Warning_error e, Traceback e]\<rparr>))"

text \<open>The hooks of the base classes (lines 146, 147 and 201 to 204) only raise.\<close>

definition rewrite_block_base :: "'r \<Rightarrow> 'p \<Rightarrow> state \<Rightarrow> py_exc option \<times> state" where
  "rewrite_block_base result prompt_data s = (Some NotImplementedError, s)"

definition process_rewriting_base :: "'t \<Rightarrow> py_exc option" where
  "process_rewriting_base task = Some NotImplementedError"

section \<open>rewrite_blocks and its worker pool\<close>

text \<open>
  \<^verbatim>\<open>rewrite_blocks\<close> (lines 149 to 172). \<open>pages\<close> is \<^verbatim>\<open>document.pages\<close> and
  \<open>contained_blocks p\<close> is \<^verbatim>\<open>p.contained_blocks(document, self.block_types)\<close>, the
  blocks of page \<open>p\<close> that match the type filter; the method is declared
  outside the sources and is a parameter. It gives the same list at line 152
  and at line 166: a hook writes to its own block and does not change which
  blocks a page contains. A task is a pair of a page and a block; \<open>hook\<close>
  gives the exception \<^verbatim>\<open>process_rewriting\<close> raises on a task, if it raises.
\<close>

definition total_blocks :: "'p list \<Rightarrow> ('p \<Rightarrow> 'b list) \<Rightarrow> nat" where
  "total_blocks pages contained_blocks = sum_list (map (\<lambda>p. length (contained_blocks p)) pages)"

definition submitted :: "'p list \<Rightarrow> ('p \<Rightarrow> 'b list) \<Rightarrow> ('p \<times> 'b) list" where
  "submitted pages contained_blocks = concat (map (\<lambda>p. map (Pair p) (contained_blocks p)) pages)"

text \<open>
  What the method has called so far, and where its main thread stands. The
  pool is the executor's work queue (first in, first out), the tasks its
  workers are running, and the futures that are done and that
  \<^verbatim>\<open>as_completed\<close> has not yielded yet. \<open>visits\<close> lists the calls of the hook.
\<close>

datatype call = Tqdm_create | Pool_create int | Pbar_update | Pbar_close

datatype status = Running | Returned | Raised py_exc

record 't run =
  status :: status
  calls :: "call list"
  to_submit :: "'t list"
  queue :: "'t list"
  working :: "'t list"
  finished :: "'t list"
  yielded :: nat
  visits :: "'t list"

text \<open>
  The run that has returned without calling anything: no progress bar, no
  pool, no task.
\<close>

definition idle :: "'t run" where
  "idle =
     \<lparr>status = Returned, calls = [], to_submit = [], queue = [], working = [],
      finished = [], yielded = 0, visits = []\<rparr>"

text \<open>
  Lines 151 to 161: the count, the early return, the progress bar and the
  pool. \<^verbatim>\<open>ThreadPoolExecutor\<close> raises ValueError for a size below one.
\<close>

definition start :: "int \<Rightarrow> 'p list \<Rightarrow> ('p \<Rightarrow> 'b list) \<Rightarrow> ('p \<times> 'b) run" where
  "start k pages contained_blocks =
     (if total_blocks pages contained_blocks = 0 then idle
      else if k \<le> 0 then
        \<lparr>status = Raised ValueError, calls = [Tqdm_create], to_submit = [], queue = [],
         working = [], finished = [], yielded = 0, visits = []\<rparr>
      else
        \<lparr>status = Running, calls = [Tqdm_create, Pool_create k],
         to_submit = submitted pages contained_blocks, queue = [], working = [],
         finished = [], yielded = 0, visits = []\<rparr>)"

text \<open>
  The steps of a run with \<open>n\<close> tasks and a pool of size \<open>k\<close>.
  \<^item> \<open>Submit\<close>: the comprehension of lines 163 to 167 submits its next task.
  \<^item> \<open>Begin\<close>: a free worker takes the task at the head of the queue and calls
    the hook on it.
  \<^item> \<open>Finish i\<close>: the \<open>i\<close>-th running task ends; its future is done.
  \<^item> \<open>Yield i\<close>: once every task is submitted, \<^verbatim>\<open>as_completed\<close> yields a future
    that is done; line 169 raises the task's exception, or line 170 updates
    the progress bar.
  \<^item> \<open>Return\<close>: every future has been yielded; the pool is left, line 172 closes
    the progress bar and the method returns.
  A step that is not enabled gives \<open>None\<close>. What the pool does after line 169
  has raised is not part of the model.
\<close>

datatype action = Submit | Begin | Finish nat | Yield nat | Return

definition drop_nth :: "nat \<Rightarrow> 'a list \<Rightarrow> 'a list" where
  "drop_nth i xs = take i xs @ drop (Suc i) xs"

fun step :: "int \<Rightarrow> ('t \<Rightarrow> py_exc option) \<Rightarrow> nat \<Rightarrow> action \<Rightarrow> 't run \<Rightarrow> 't run option" where
  "step k hook n Submit r =
     (case to_submit r of
        t # ts \<Rightarrow>
          if status r = Running then Some (r\<lparr>to_submit := ts, queue := queue r @ [t]\<rparr>)
          else None
      | [] \<Rightarrow> None)"
| "step k hook n Begin r =
     (case queue r of
        t # q \<Rightarrow>
          if int (length (working r)) < k
          then Some (r\<lparr>queue := q, working := working r @ [t], visits := visits r @ [t]\<rparr>)
          else None
      | [] \<Rightarrow> None)"
| "step k hook n (Finish i) r =
     (if i < length (working r)
      then Some (r\<lparr>working := drop_nth i (working r),
                   finished := finished r @ [working r ! i]\<rparr>)
      else None)"
| "step k hook n (Yield i) r =
     (if status r = Running \<and> to_submit r = [] \<and> i < length (finished r) then
        (case hook (finished r ! i) of
           Some e \<Rightarrow> Some (r\<lparr>status := Raised e, finished := drop_nth i (finished r)\<rparr>)
         | None \<Rightarrow>
             Some (r\<lparr>finished := drop_nth i (finished r), yielded := Suc (yielded r),
                     calls := calls r @ [Pbar_update]\<rparr>))
      else None)"
| "step k hook n Return r =
     (if status r = Running \<and> to_submit r = [] \<and> yielded r = n
      then Some (r\<lparr>status := Returned, calls := calls r @ [Pbar_close]\<rparr>)
      else None)"

fun steps :: "int \<Rightarrow> ('t \<Rightarrow> py_exc option) \<Rightarrow> nat \<Rightarrow> action list \<Rightarrow> 't run \<Rightarrow> 't run option" where
  "steps k hook n [] r = Some r"
| "steps k hook n (a # as) r =
     (case step k hook n a r of None \<Rightarrow> None | Some r' \<Rightarrow> steps k hook n as r')"

text \<open>
  A run of \<^verbatim>\<open>rewrite_blocks\<close> under a schedule: the steps are taken from the
  state of \<open>start\<close>. The schedule stands for the timing of the threads.
\<close>

definition rewrite_blocks ::
  "int \<Rightarrow> ('p \<times> 'b \<Rightarrow> py_exc option) \<Rightarrow> 'p list \<Rightarrow> ('p \<Rightarrow> 'b list) \<Rightarrow> action list \<Rightarrow>
   ('p \<times> 'b) run option" where
  "rewrite_blocks k hook pages contained_blocks schedule =
     steps k hook (length (submitted pages contained_blocks)) schedule (start k pages contained_blocks)"

text \<open>
  What every step keeps, for the tasks \<open>tasks\<close> of the run: until line 169
  raises, each task is waiting to be submitted, in the queue, or has been
  handed to the hook; a future that is running, done or yielded belongs to a
  task the hook was called on; and the method returns only after it was
  yielded every future.
\<close>

definition run_inv :: "'t list \<Rightarrow> 't run \<Rightarrow> bool" where
  "run_inv tasks r =
     ((status r = Running \<or> status r = Returned \<longrightarrow>
         mset (to_submit r) + mset (queue r) + mset (visits r) = mset tasks) \<and>
      yielded r + length (finished r) + length (working r) \<le> length (visits r) \<and>
      (status r = Returned \<longrightarrow> yielded r = length tasks))"

section \<open>Example data\<close>

text \<open>
  A document of two blocks with markup and one without the attribute, and
  batches of result records, used to evaluate the definitions.
\<close>

definition example_types :: "string list" where
  "example_types = [''Text'', ''Table'', ''Line'']"

definition text_1 :: BlockId where
  "text_1 = \<lparr>page_id = ''0'', block_id = ''1'', block_type = ''Text''\<rparr>"

definition table_2 :: BlockId where
  "table_2 = \<lparr>page_id = ''0'', block_id = ''2'', block_type = ''Table''\<rparr>"

definition line_3 :: BlockId where
  "line_3 = \<lparr>page_id = ''1'', block_id = ''3'', block_type = ''Line''\<rparr>"

definition example_doc :: document where
  "example_doc =
     [text_1 \<mapsto> \<lparr>html = Some (PStr ''old 1'')\<rparr>,
      table_2 \<mapsto> \<lparr>html = Some (PStr ''old 2'')\<rparr>,
      line_3 \<mapsto> \<lparr>html = None\<rparr>]"

definition example_state :: state where
  "example_state = \<lparr>doc = example_doc, log = []\<rparr>"

definition record_text_1 :: pyval where
  "record_text_1 = PDict [(''id'', PStr ''/page/0/Text/1''), (''html'', PStr ''new 1'')]"

definition record_table_2 :: pyval where
  "record_table_2 = PDict [(''id'', PStr ''/page/0/Table/2''), (''html'', PStr ''new 2'')]"

definition record_unknown_type :: pyval where
  "record_unknown_type = PDict [(''id'', PStr ''/doc/p1/UnknownType/b1''), (''html'', PStr ''x'')]"

definition record_without_id :: pyval where
  "record_without_id = PDict [(''html'', PStr ''x'')]"

text \<open>
  One record for each way a record can fail: an \<^verbatim>\<open>id\<close> that is not a string,
  too few segments, an unknown type, a block that is not in the document, no
  \<^verbatim>\<open>html\<close> key, and a block without the \<^verbatim>\<open>html\<close> attribute.
\<close>

definition failing_records :: "pyval list" where
  "failing_records =
     [PDict [(''id'', PInt 7), (''html'', PStr ''a'')],
      PDict [(''id'', PStr ''/page/0''), (''html'', PStr ''b'')],
      record_unknown_type,
      PDict [(''id'', PStr ''/page/9/Text/9''), (''html'', PStr ''c'')],
      PDict [(''id'', PStr ''/page/0/Text/1'')],
      PDict [(''id'', PStr ''/page/1/Line/3''), (''html'', PStr ''d'')]]"

definition example_config :: config where
  "example_config = \<lparr>max_concurrency = 3, use_llm = True, disable_tqdm = False\<rparr>"

definition example_processor :: "unit processor" where
  "example_processor = init (Some ()) example_config"

definition unbound_processor :: "unit processor" where
  "unbound_processor = init None example_config"

definition disabled_processor :: "unit processor" where
  "disabled_processor = init (Some ()) (example_config\<lparr>use_llm := False\<rparr>)"

text \<open>A \<^verbatim>\<open>rewrite_blocks\<close> that empties the document and then raises.\<close>

definition failing_rewrite_blocks :: "state \<Rightarrow> py_exc option \<times> state" where
  "failing_rewrite_blocks s = (Some (RuntimeError ''service down''), s\<lparr>doc := Map.empty\<rparr>)"

text \<open>
  Raw result records: the first three decode to the records above, the last
  one is cut off inside a string.
\<close>

definition raw_text_1 :: string where
  \<open>raw_text_1 = ''{"id": "/page/0/Text/1", "html": "new 1"}''\<close>

definition raw_truncated :: string where
  \<open>raw_truncated = ''{"id": "/page/0/Table/2", "html": "new''\<close>

definition raw_table_2 :: string where
  \<open>raw_table_2 = ''{"id": "/page/0/Table/2", "html": "new 2"}''\<close>

definition raw_unknown_type :: string where
  \<open>raw_unknown_type = '' {"id" : "/doc/p1/UnknownType/b1", "html": "x"} ''\<close>

text \<open>
  Two pages with three matching blocks, a hook that never raises, and a
  schedule for a pool of two workers in which tasks overlap and end out of
  order.
\<close>

definition example_pages :: "nat list" where
  "example_pages = [0, 1]"

definition example_blocks :: "nat \<Rightarrow> string list" where
  "example_blocks p = (if p = 0 then [''a'', ''b''] else [''c''])"

definition no_blocks :: "nat \<Rightarrow> string list" where
  "no_blocks p = []"

definition quiet_hook :: "'t \<Rightarrow> py_exc option" where
  "quiet_hook task = None"

definition example_schedule :: "action list" where
  "example_schedule =
     [Submit, Begin, Submit, Submit, Begin, Finish 1, Finish 0, Begin, Yield 0, Finish 0,
      Yield 1, Yield 0, Return]"

section \<open>Properties of handle_rewrites\<close>

lemma getitem_id_has_id: "has_id b \<Longrightarrow> \<exists>v. getitem b ''id'' = Inr v"
  by (cases b) auto

lemma getitem_id_no_id: "is_dict b \<Longrightarrow> \<not> has_id b \<Longrightarrow> getitem b ''id'' = Inl KeyError"
  by (cases b) auto

lemma handle_record_has_id: "has_id b \<Longrightarrow> \<exists>s'. handle_record types s b = Inr s'"
  using getitem_id_has_id [of b] by (auto simp: handle_record_def split: sum.splits)

lemma handle_record_no_id:
  "is_dict b \<Longrightarrow> \<not> has_id b \<Longrightarrow> handle_record types s b = Inl KeyError"
  by (simp add: handle_record_def try_body_def getitem_id_no_id)


lemma handle_rewrites_first_missing_id:
  "list_all is_dict bs \<Longrightarrow> \<not> list_all has_id bs \<Longrightarrow>
   handle_rewrites types bs s =
     (Some KeyError, snd (handle_rewrites types (takeWhile has_id bs) s))"
proof (induction bs arbitrary: s)
  case Nil
  then show ?case by simp
next
  case (Cons b bs)
  show ?case
  proof (cases "has_id b")
    case True
    then obtain s' where "handle_record types s b = Inr s'"
      using handle_record_has_id [of b types s] by auto
    with Cons True show ?thesis by simp
  next
    case False
    with Cons.prems have "handle_record types s b = Inl KeyError"
      by (simp add: handle_record_no_id)
    with False show ?thesis by simp
  qed
qed

lemma handle_rewrites_foldl:
  "list_all has_id bs \<Longrightarrow>
   handle_rewrites types bs s = (None, foldl (record_effect types) s bs)"
proof (induction bs arbitrary: s)
  case Nil
  then show ?case by simp
next
  case (Cons b bs)
  then obtain s' where "handle_record types s b = Inr s'"
    using handle_record_has_id [of b types s] by auto
  with Cons show ?case by (simp add: record_effect_def)
qed

lemmas decode_simps =
  decode_id_def strip_def is_space_def lstrip_slash_def getattr_BlockTypes_def BlockId_init_def

lemmas example_simps =
  example_types_def text_1_def table_2_def line_3_def example_doc_def example_state_def
  record_text_1_def record_table_2_def record_unknown_type_def record_without_id_def

lemmas handle_simps = handle_record_def try_body_def get_block_def decode_simps

text \<open>
  C10. When every element of the batch is a dict, \<^verbatim>\<open>handle_rewrites\<close> raises
  only if some dict has no \<^verbatim>\<open>id\<close> key. If every dict has the key, the call
  returns normally whatever else is wrong with the records, and every record
  has had its turn: the state is the one the records leave one after the
  other. If some dict lacks the key, the handler's own read of
  \<^verbatim>\<open>block_data['id']\<close> raises KeyError at the first such record: the state is
  the one left by the records before it, and the records after it are not
  processed.
\<close>

theorem handle_rewrites_raises_iff_id_missing:
  assumes "list_all is_dict blocks"
  shows "(list_all has_id blocks \<longrightarrow>
            handle_rewrites types blocks s = (None, foldl (record_effect types) s blocks)) \<and>
         (\<not> list_all has_id blocks \<longrightarrow>
            handle_rewrites types blocks s =
              (Some KeyError, snd (handle_rewrites types (takeWhile has_id blocks) s)))"
  using assms handle_rewrites_foldl handle_rewrites_first_missing_id by blast

theorem handle_rewrites_raises_iff_id_missing_witness:
  "list_all is_dict [record_unknown_type, record_text_1] \<and>
   list_all has_id [record_unknown_type, record_text_1] \<and>
   fst (handle_rewrites example_types [record_unknown_type, record_text_1] example_state) = None \<and>
   list_all is_dict [record_table_2, record_without_id, record_text_1] \<and>
   \<not> list_all has_id [record_table_2, record_without_id, record_text_1] \<and>
   handle_rewrites example_types [record_table_2, record_without_id, record_text_1] example_state =
     (Some KeyError,
      snd (handle_rewrites example_types
             (takeWhile has_id [record_table_2, record_without_id, record_text_1]) example_state))"
proof -
  have d1: "list_all is_dict [record_unknown_type, record_text_1]"
    by (simp add: example_simps)
  have h1: "list_all has_id [record_unknown_type, record_text_1]"
    by (simp add: example_simps)
  have d2: "list_all is_dict [record_table_2, record_without_id, record_text_1]"
    by (simp add: example_simps)
  have h2: "\<not> list_all has_id [record_table_2, record_without_id, record_text_1]"
    by (simp add: example_simps)
  from handle_rewrites_raises_iff_id_missing [OF d1] h1
  have "handle_rewrites example_types [record_unknown_type, record_text_1] example_state =
          (None, foldl (record_effect example_types) example_state
                   [record_unknown_type, record_text_1])"
    by blast
  then have r1: "fst (handle_rewrites example_types [record_unknown_type, record_text_1]
                   example_state) = None"
    by simp
  from handle_rewrites_raises_iff_id_missing [OF d2] h2
  have r2: "handle_rewrites example_types [record_table_2, record_without_id, record_text_1]
              example_state =
            (Some KeyError,
             snd (handle_rewrites example_types
                    (takeWhile has_id [record_table_2, record_without_id, record_text_1])
                    example_state))"
    by blast
  from d1 h1 r1 d2 h2 r2 show ?thesis by blast
qed

text \<open>
  The batch with the record that has no \<^verbatim>\<open>id\<close>, evaluated: the table is
  rewritten, the record without an \<^verbatim>\<open>id\<close> raises, and the text block keeps
  its old markup.
\<close>

lemma handle_rewrites_missing_id_example:
  "handle_rewrites example_types [record_table_2, record_without_id, record_text_1] example_state =
     (Some KeyError,
      \<lparr>doc = example_doc(table_2 \<mapsto> \<lparr>html = Some (PStr ''new 2'')\<rparr>), log = []\<rparr>)"
  by (simp add: handle_simps example_simps)


text \<open>
  Every way a record with an \<^verbatim>\<open>id\<close> can fail, in one batch: each failure is
  logged or passed over, and the table record at the end is still applied.
\<close>

lemma handle_rewrites_failure_kinds_example:
  "handle_rewrites example_types (failing_records @ [record_table_2]) example_state =
     (None,
      \<lparr>doc = example_doc(table_2 \<mapsto> \<lparr>html = Some (PStr ''new 2'')\<rparr>),
       log = [Debug_parse_error (PInt 7) AttributeError,
              Debug_parse_error (PStr ''/page/0'') ValueError,
              Debug_parse_error (PStr ''/doc/p1/UnknownType/b1'') AttributeError,
              Debug_not_found \<lparr>page_id = ''9'', block_id = ''9'', block_type = ''Text''\<rparr>,
              Debug_parse_error (PStr ''/page/0/Text/1'') KeyError]\<rparr>)"
  by (simp add: failing_records_def handle_simps example_simps)

section \<open>Properties of the entry points\<close>

lemmas processor_simps =
  example_config_def example_processor_def unbound_processor_def disabled_processor_def init_def

text \<open>
  C9. When \<^verbatim>\<open>use_llm\<close> is false or no service is bound,
  \<^verbatim>\<open>BaseLLMComplexBlockProcessor.__call__\<close> returns normally with the state it
  was given (the document and the log), whatever \<^verbatim>\<open>rewrite_blocks\<close> would
  have done: the method is not called. \<^verbatim>\<open>__init__\<close> binds no service when
  \<^verbatim>\<open>use_llm\<close> is false or when it is given none.
\<close>

theorem call_complex_noop_when_unconfigured:
  "(\<not> use_llm p \<or> llm_service p = None \<longrightarrow> call_complex rb p s = (None, s)) \<and>
   (\<not> use_llm c \<or> service = None \<longrightarrow>
      llm_service (init service c) = None \<and>
      call_complex rb (init service c) s = (None, s))"
  by (auto simp: call_complex_def init_def)

theorem call_complex_noop_when_unconfigured_witness:
  "\<not> use_llm disabled_processor \<and>
   call_complex failing_rewrite_blocks disabled_processor example_state = (None, example_state) \<and>
   llm_service unbound_processor = None \<and>
   call_complex failing_rewrite_blocks unbound_processor example_state = (None, example_state)"
proof -
  have a: "\<not> use_llm disabled_processor"
    by (simp add: processor_simps)
  have b: "llm_service unbound_processor = None"
    by (simp add: processor_simps)
  from a call_complex_noop_when_unconfigured [of disabled_processor failing_rewrite_blocks example_state]
  have c: "call_complex failing_rewrite_blocks disabled_processor example_state = (None, example_state)"
    by blast
  from b call_complex_noop_when_unconfigured [of unbound_processor failing_rewrite_blocks example_state]
  have d: "call_complex failing_rewrite_blocks unbound_processor example_state = (None, example_state)"
    by blast
  from a b c d show ?thesis by blast
qed

text \<open>
  C6. Neither entry point raises. \<^verbatim>\<open>BaseLLMComplexBlockProcessor.__call__\<close>
  turns an exception of \<^verbatim>\<open>rewrite_blocks\<close> into a warning in the log, and
  \<^verbatim>\<open>BaseLLMSimpleBlockProcessor.__call__\<close> turns an exception of
  \<^verbatim>\<open>rewrite_block\<close> into a warning and a printed traceback; both return
  normally, with the state the failed method left.
\<close>

theorem entry_points_never_raise:
  "fst (call_complex rb p s) = None \<and>
   fst (call_simple rw result prompt_data s) = None \<and>
   (use_llm p \<and> llm_service p \<noteq> None \<and> rb s = (Some e, s') \<longrightarrow>
      snd (call_complex rb p s) = s'\<lparr>log := log s' @ [Warning_error e]\<rparr>) \<and>
   (rw result prompt_data s = (Some e, s') \<longrightarrow>
      snd (call_simple rw result prompt_data s) =
        s'\<lparr>log := log s' @ [Warning_error e, Traceback e]\<rparr>)"
  by (auto simp: call_complex_def call_simple_def split: prod.splits option.splits)

theorem entry_points_never_raise_witness:
  "fst (call_complex failing_rewrite_blocks example_processor example_state) = None \<and>
   fst (call_simple rewrite_block_base () () example_state) = None \<and>
   snd (call_complex failing_rewrite_blocks example_processor example_state) =
     \<lparr>doc = Map.empty, log = [Warning_error (RuntimeError ''service down'')]\<rparr> \<and>
   snd (call_simple rewrite_block_base () () example_state) =
     \<lparr>doc = example_doc, log = [Warning_error NotImplementedError, Traceback NotImplementedError]\<rparr>"
proof -
  have a: "use_llm example_processor \<and> llm_service example_processor \<noteq> None"
    by (simp add: processor_simps)
  have b: "failing_rewrite_blocks example_state =
             (Some (RuntimeError ''service down''), \<lparr>doc = Map.empty, log = []\<rparr>)"
    by (simp add: failing_rewrite_blocks_def example_state_def)
  have c: "rewrite_block_base () () example_state = (Some NotImplementedError, example_state)"
    by (simp add: rewrite_block_base_def)
  note t = entry_points_never_raise
    [of failing_rewrite_blocks example_processor example_state rewrite_block_base "()" "()"]
  from t have r1: "fst (call_complex failing_rewrite_blocks example_processor example_state) = None"
    by blast
  from t have r2: "fst (call_simple rewrite_block_base () () example_state) = None"
    by blast
  from t [of "RuntimeError ''service down''" "\<lparr>doc = Map.empty, log = []\<rparr>"] a b
  have r3: "snd (call_complex failing_rewrite_blocks example_processor example_state) =
              \<lparr>doc = Map.empty, log = []\<rparr>\<lparr>log := log \<lparr>doc = Map.empty, log = []\<rparr> @
                 [Warning_error (RuntimeError ''service down'')]\<rparr>"
    by blast
  from t [of NotImplementedError example_state] c
  have r4: "snd (call_simple rewrite_block_base () () example_state) =
              example_state\<lparr>log := log example_state @
                 [Warning_error NotImplementedError, Traceback NotImplementedError]\<rparr>"
    by blast
  from r1 r2 r3 r4 show ?thesis by (simp add: example_state_def)
qed


section \<open>Properties of rewrite_blocks\<close>

lemma length_submitted: "length (submitted pages cb) = total_blocks pages cb"
  by (induction pages) (simp_all add: submitted_def total_blocks_def)

lemma set_submitted: "set (submitted pages cb) = {(p, b). p \<in> set pages \<and> b \<in> set (cb p)}"
  by (auto simp: submitted_def)

lemma distinct_submitted:
  "distinct pages \<Longrightarrow> (\<forall>p\<in>set pages. distinct (cb p)) \<Longrightarrow> distinct (submitted pages cb)"
  by (induction pages) (auto simp: submitted_def distinct_map inj_on_def)

lemma total_blocks_zero: "(\<forall>p\<in>set pages. cb p = []) \<Longrightarrow> total_blocks pages cb = 0"
  by (simp add: total_blocks_def)

lemma step_idle: "step k hook n a idle = None"
  by (cases a) (simp_all add: idle_def)

lemma steps_idle: "steps k hook n as idle = Some r \<Longrightarrow> as = [] \<and> r = idle"
  by (cases as) (simp_all add: step_idle)

lemma start_zero: "total_blocks pages cb = 0 \<Longrightarrow> start k pages cb = idle"
  by (simp add: start_def)

lemma length_drop_nth: "i < length xs \<Longrightarrow> length (drop_nth i xs) = length xs - 1"
  by (simp add: drop_nth_def)

lemma step_inv:
  assumes "run_inv tasks r" and "step k hook (length tasks) a r = Some r'"
  shows "run_inv tasks r'"
proof (cases a)
  case Submit
  with assms show ?thesis
    by (auto simp: run_inv_def split: list.splits if_splits)
next
  case Begin
  with assms show ?thesis
    by (auto simp: run_inv_def split: list.splits if_splits)
next
  case (Finish i)
  with assms show ?thesis
    by (auto simp: run_inv_def length_drop_nth split: if_splits)
next
  case (Yield i)
  with assms show ?thesis
    by (auto simp: run_inv_def length_drop_nth split: option.splits if_splits)
next
  case Return
  with assms show ?thesis
    by (auto simp: run_inv_def split: if_splits)
qed

lemma steps_inv:
  "run_inv tasks r \<Longrightarrow> steps k hook (length tasks) as r = Some r' \<Longrightarrow> run_inv tasks r'"
proof (induction as arbitrary: r)
  case Nil
  then show ?case by simp
next
  case (Cons a as)
  then show ?case
    by (auto split: option.splits dest: step_inv)
qed

lemma start_inv: "run_inv (submitted pages cb) (start k pages cb)"
  using length_submitted [of pages cb]
  by (auto simp: run_inv_def start_def idle_def)

lemma returned_all_visited:
  assumes "run_inv tasks r" and "status r = Returned"
  shows "mset (visits r) = mset tasks"
proof -
  from assms have m: "mset (to_submit r) + mset (queue r) + mset (visits r) = mset tasks"
    and y: "yielded r = length tasks"
    and le: "yielded r + length (finished r) + length (working r) \<le> length (visits r)"
    by (auto simp: run_inv_def)
  from m have "length (to_submit r) + length (queue r) + length (visits r) = length tasks"
    by (metis size_mset size_union)
  with y le have "length (to_submit r) = 0" and "length (queue r) = 0" by linarith+
  then have "to_submit r = []" and "queue r = []" by simp_all
  with m show ?thesis by simp
qed

lemma rewrite_blocks_returned_visits:
  assumes "rewrite_blocks k hook pages cb schedule = Some r" and "status r = Returned"
  shows "mset (visits r) = mset (submitted pages cb)"
  using assms start_inv [of pages cb k] steps_inv returned_all_visited
  unfolding rewrite_blocks_def by blast

lemma steps_append:
  "steps k hook n (as @ bs) r =
     (case steps k hook n as r of None \<Rightarrow> None | Some r' \<Rightarrow> steps k hook n bs r')"
  by (induction as arbitrary: r) (auto split: option.splits)

lemma submit_all:
  "status r = Running \<Longrightarrow> to_submit r = ts \<Longrightarrow>
   steps k hook n (replicate (length ts) Submit) r =
     Some (r\<lparr>to_submit := [], queue := queue r @ ts\<rparr>)"
proof (induction ts arbitrary: r)
  case Nil
  then show ?case by simp
next
  case (Cons t ts)
  let ?r = "r\<lparr>to_submit := ts, queue := queue r @ [t]\<rparr>"
  from Cons.prems have "step k hook n Submit r = Some ?r" by simp
  moreover from Cons.prems have "status ?r = Running" and "to_submit ?r = ts" by simp_all
  then have "steps k hook n (replicate (length ts) Submit) ?r =
               Some (?r\<lparr>to_submit := [], queue := queue ?r @ ts\<rparr>)"
    by (rule Cons.IH)
  ultimately show ?case by simp
qed

text \<open>One worker at a time: each queued task is begun, finished and yielded in turn.\<close>

lemma serve_all:
  "status r = Running \<Longrightarrow> to_submit r = [] \<Longrightarrow> working r = [] \<Longrightarrow> finished r = [] \<Longrightarrow>
   queue r = q \<Longrightarrow> 0 < k \<Longrightarrow> \<forall>t\<in>set q. hook t = None \<Longrightarrow>
   steps k hook n (concat (replicate (length q) [Begin, Finish 0, Yield 0])) r =
     Some (r\<lparr>queue := [], visits := visits r @ q, yielded := yielded r + length q,
             calls := calls r @ replicate (length q) Pbar_update\<rparr>)"
proof (induction q arbitrary: r)
  case Nil
  then show ?case by simp
next
  case (Cons t q)
  let ?r = "r\<lparr>queue := q, visits := visits r @ [t], yielded := Suc (yielded r),
              calls := calls r @ [Pbar_update]\<rparr>"
  from Cons.prems have one: "steps k hook n [Begin, Finish 0, Yield 0] r = Some ?r"
    by (simp add: drop_nth_def)
  from Cons.prems have "status ?r = Running" "to_submit ?r = []" "working ?r = []"
    "finished ?r = []" "queue ?r = q" "\<forall>t\<in>set q. hook t = None"
    by simp_all
  with \<open>0 < k\<close> have "steps k hook n (concat (replicate (length q) [Begin, Finish 0, Yield 0])) ?r =
     Some (?r\<lparr>queue := [], visits := visits ?r @ q, yielded := yielded ?r + length q,
             calls := calls ?r @ replicate (length q) Pbar_update\<rparr>)"
    by (intro Cons.IH)
  with one show ?case
    using steps_append [of k hook n "[Begin, Finish 0, Yield 0]"
        "concat (replicate (length q) [Begin, Finish 0, Yield 0])" r]
    by simp
qed

lemma returning_schedule:
  assumes "0 < k" and "\<forall>t\<in>set (submitted pages cb). hook t = None"
  shows "\<exists>schedule r. rewrite_blocks k hook pages cb schedule = Some r \<and> status r = Returned"
proof (cases "total_blocks pages cb = 0")
  case True
  then have "rewrite_blocks k hook pages cb [] = Some idle"
    by (simp add: rewrite_blocks_def start_zero)
  moreover have "status (idle :: ('a \<times> 'b) run) = Returned" by (simp add: idle_def)
  ultimately show ?thesis by blast
next
  case False
  let ?ts = "submitted pages cb"
  let ?n = "length ?ts"
  let ?r0 = "start k pages cb"
  let ?r1 = "?r0\<lparr>to_submit := [], queue := queue ?r0 @ ?ts\<rparr>"
  let ?r2 = "?r1\<lparr>queue := [], visits := visits ?r1 @ ?ts, yielded := yielded ?r1 + ?n,
                  calls := calls ?r1 @ replicate ?n Pbar_update\<rparr>"
  let ?r3 = "?r2\<lparr>status := Returned, calls := calls ?r2 @ [Pbar_close]\<rparr>"
  from False assms have s0: "status ?r0 = Running" "to_submit ?r0 = ?ts" "queue ?r0 = []"
    "working ?r0 = []" "finished ?r0 = []" "yielded ?r0 = 0"
    by (simp_all add: start_def)
  have a: "steps k hook ?n (replicate ?n Submit) ?r0 = Some ?r1"
    using s0 by (intro submit_all) simp_all
  have b: "steps k hook ?n (concat (replicate ?n [Begin, Finish 0, Yield 0])) ?r1 = Some ?r2"
    using s0 assms by (intro serve_all) simp_all
  have c: "steps k hook ?n [Return] ?r2 = Some ?r3"
    using s0 by simp
  have "steps k hook ?n
          (replicate ?n Submit @ concat (replicate ?n [Begin, Finish 0, Yield 0]) @ [Return]) ?r0 =
        Some ?r3"
    using a b c by (simp add: steps_append)
  moreover have "status ?r3 = Returned" by simp
  ultimately show ?thesis
    unfolding rewrite_blocks_def by blast
qed

lemmas pool_example_simps =
  example_pages_def example_blocks_def no_blocks_def quiet_hook_def example_schedule_def
  rewrite_blocks_def start_def submitted_def total_blocks_def drop_nth_def idle_def

text \<open>
  C8. When no page has a block that matches the type filter, \<^verbatim>\<open>rewrite_blocks\<close>
  counts zero blocks and has returned at once: the run with no step is
  \<open>idle\<close>, no step can follow it, and the returned run has called neither the
  progress bar nor a pool nor the hook.
\<close>

theorem rewrite_blocks_zero_work:
  assumes "\<forall>p\<in>set pages. cb p = []"
  shows "total_blocks pages cb = 0 \<and>
         rewrite_blocks k hook pages cb [] = Some idle \<and>
         (rewrite_blocks k hook pages cb schedule = Some r \<longrightarrow>
            schedule = [] \<and> status r = Returned \<and> calls r = [] \<and> visits r = [])"
proof -
  from assms have z: "total_blocks pages cb = 0" by (rule total_blocks_zero)
  then have s: "start k pages cb = idle" by (rule start_zero)
  then have e: "rewrite_blocks k hook pages cb [] = Some idle"
    by (simp add: rewrite_blocks_def)
  have "schedule = [] \<and> status r = Returned \<and> calls r = [] \<and> visits r = []"
    if "rewrite_blocks k hook pages cb schedule = Some r"
  proof -
    from that s have "schedule = [] \<and> r = idle"
      using steps_idle [of k hook "length (submitted pages cb)" schedule r]
      by (simp add: rewrite_blocks_def)
    then show ?thesis by (simp add: idle_def)
  qed
  with z e show ?thesis by blast
qed

theorem rewrite_blocks_zero_work_witness:
  "list_all (\<lambda>p. no_blocks p = []) example_pages \<and>
   total_blocks example_pages no_blocks = 0 \<and>
   rewrite_blocks 3 process_rewriting_base example_pages no_blocks [] = Some idle \<and>
   rewrite_blocks 3 process_rewriting_base example_pages no_blocks [Submit] = None"
proof -
  have h: "\<forall>p\<in>set example_pages. no_blocks p = []"
    by (simp add: no_blocks_def)
  note t = rewrite_blocks_zero_work [OF h, of 3 process_rewriting_base]
  from t have a: "total_blocks example_pages no_blocks = 0" by blast
  from t have b: "rewrite_blocks 3 process_rewriting_base example_pages no_blocks [] = Some idle"
    by blast
  have c: "rewrite_blocks 3 process_rewriting_base example_pages no_blocks [Submit] = None"
  proof (cases "rewrite_blocks 3 process_rewriting_base example_pages no_blocks [Submit]")
    case None
    then show ?thesis .
  next
    case (Some r)
    with t [of "[Submit]" r] show ?thesis by blast
  qed
  from h have h': "list_all (\<lambda>p. no_blocks p = []) example_pages"
    by (simp add: list_all_iff)
  from h' a b c show ?thesis by blast
qed

text \<open>The example schedule, run on a pool of two workers.\<close>

lemma example_run:
  "rewrite_blocks 2 quiet_hook example_pages example_blocks example_schedule =
     Some \<lparr>status = Returned,
           calls = [Tqdm_create, Pool_create 2, Pbar_update, Pbar_update, Pbar_update, Pbar_close],
           to_submit = [], queue = [], working = [], finished = [], yielded = 3,
           visits = [(0, ''a''), (0, ''b''), (1, ''c'')]\<rparr>"
  by (simp add: pool_example_simps)

text \<open>
  C7. The tasks \<^verbatim>\<open>rewrite_blocks\<close> submits are, page by page, the matching
  blocks of each page: one task for each pair of a page and a matching block,
  as many as the count of line 151, and no pair twice when pages and blocks are
  not repeated. Whatever the pool size \<open>k\<close> and whatever the schedule, a run
  that has returned has called the hook on every submitted task exactly once.
  For every pool size of at least one such a run exists when no hook raises.
\<close>

theorem rewrite_blocks_visits_every_block_once:
  "(rewrite_blocks k hook pages cb schedule = Some r \<and> status r = Returned \<longrightarrow>
      mset (visits r) = mset (submitted pages cb)) \<and>
   set (submitted pages cb) = {(p, b). p \<in> set pages \<and> b \<in> set (cb p)} \<and>
   length (submitted pages cb) = total_blocks pages cb \<and>
   (distinct pages \<and> (\<forall>p\<in>set pages. distinct (cb p)) \<longrightarrow>
      distinct (submitted pages cb) \<and>
      (rewrite_blocks k hook pages cb schedule = Some r \<and> status r = Returned \<longrightarrow>
         distinct (visits r) \<and> set (visits r) = {(p, b). p \<in> set pages \<and> b \<in> set (cb p)})) \<and>
   (0 < k \<and> (\<forall>t\<in>set (submitted pages cb). hook t = None) \<longrightarrow>
      (\<exists>schedule' r'. rewrite_blocks k hook pages cb schedule' = Some r' \<and> status r' = Returned))"
proof -
  have v: "mset (visits r) = mset (submitted pages cb)"
    if "rewrite_blocks k hook pages cb schedule = Some r" and "status r = Returned"
    using that by (rule rewrite_blocks_returned_visits)
  have d: "distinct (visits r) \<and> set (visits r) = {(p, b). p \<in> set pages \<and> b \<in> set (cb p)}"
    if "distinct (submitted pages cb)"
      and "rewrite_blocks k hook pages cb schedule = Some r" and "status r = Returned"
  proof -
    from that have m: "mset (visits r) = mset (submitted pages cb)" by (simp add: v)
    from m that(1) have "distinct (visits r)"
      by (metis mset_eq_imp_distinct_iff)
    moreover from m have "set (visits r) = set (submitted pages cb)"
      by (rule mset_eq_setD)
    ultimately show ?thesis by (simp add: set_submitted)
  qed
  show ?thesis
    using v d set_submitted [of pages cb] length_submitted [of pages cb]
      distinct_submitted [of pages cb] returning_schedule [of k pages cb hook]
    by blast
qed


theorem rewrite_blocks_visits_every_block_once_witness:
  "(\<exists>r. rewrite_blocks 2 quiet_hook example_pages example_blocks example_schedule = Some r \<and>
        status r = Returned \<and>
        mset (visits r) = mset (submitted example_pages example_blocks) \<and>
        distinct (visits r) \<and>
        set (visits r) = {(p, b). p \<in> set example_pages \<and> b \<in> set (example_blocks p)}) \<and>
   distinct example_pages \<and> list_all (\<lambda>p. distinct (example_blocks p)) example_pages \<and>
   distinct (submitted example_pages example_blocks) \<and>
   (0 :: int) < 2 \<and>
   list_all (\<lambda>t. quiet_hook t = None) (submitted example_pages example_blocks) \<and>
   (\<exists>schedule' r'. rewrite_blocks 2 quiet_hook example_pages example_blocks schedule' = Some r' \<and>
        status r' = Returned)"
proof -
  obtain r where run: "rewrite_blocks 2 quiet_hook example_pages example_blocks example_schedule = Some r"
    and ret: "status r = Returned"
    using example_run by simp
  have dp: "distinct example_pages" by (simp add: example_pages_def)
  have db: "\<forall>p\<in>set example_pages. distinct (example_blocks p)"
    by (simp add: example_pages_def example_blocks_def)
  have q: "\<forall>t\<in>set (submitted example_pages example_blocks). quiet_hook t = None"
    by (simp add: quiet_hook_def)
  note t = rewrite_blocks_visits_every_block_once
    [of 2 quiet_hook example_pages example_blocks example_schedule r]
  from t run ret have m: "mset (visits r) = mset (submitted example_pages example_blocks)"
    by blast
  from t dp db have ds: "distinct (submitted example_pages example_blocks)"
    by blast
  from t dp db run ret have dv: "distinct (visits r) \<and>
      set (visits r) = {(p, b). p \<in> set example_pages \<and> b \<in> set (example_blocks p)}"
    by blast
  from t q have ex: "\<exists>schedule' r'.
      rewrite_blocks 2 quiet_hook example_pages example_blocks schedule' = Some r' \<and>
      status r' = Returned"
    by simp
  have z: "(0 :: int) < 2" by simp
  from run ret m dv have "\<exists>r. rewrite_blocks 2 quiet_hook example_pages example_blocks example_schedule = Some r \<and>
        status r = Returned \<and>
        mset (visits r) = mset (submitted example_pages example_blocks) \<and>
        distinct (visits r) \<and>
        set (visits r) = {(p, b). p \<in> set example_pages \<and> b \<in> set (example_blocks p)}"
    by blast
  moreover from db have "list_all (\<lambda>p. distinct (example_blocks p)) example_pages"
    by (simp add: list_all_iff)
  moreover from q have "list_all (\<lambda>t. quiet_hook t = None) (submitted example_pages example_blocks)"
    by (simp add: list_all_iff)
  ultimately show ?thesis using dp ds z ex by blast
qed


section \<open>Properties of the address codec\<close>


lemma split_no_sep: "c \<notin> set xs \<Longrightarrow> split c xs = [xs]"
  by (induction xs) auto

lemma split_append_sep: "c \<notin> set xs \<Longrightarrow> split c (xs @ c # ys) = xs # split c ys"
  by (induction xs) auto




lemma decode_id_segments:
  "decode_id types (PStr s) =
     (case segments s of
        [root, p, t, b] \<Rightarrow>
          if t \<notin> set types then Inl AttributeError
          else if p = [] \<or> b = [] then Inl ValidationError
          else Inr \<lparr>page_id = p, block_id = b, block_type = t\<rparr>
      | parts \<Rightarrow> Inl ValueError)"
  by (simp add: decode_id_def segments_def getattr_BlockTypes_def BlockId_init_def
      split: list.splits)









lemma dropWhile_hd: "xs \<noteq> [] \<Longrightarrow> \<not> P (hd xs) \<Longrightarrow> dropWhile P xs = xs"
  by (cases xs) auto

lemma strip_id: "s \<noteq> [] \<Longrightarrow> \<not> is_space (hd s) \<Longrightarrow> \<not> is_space (last s) \<Longrightarrow> strip s = s"
proof -
  assume a: "s \<noteq> []" "\<not> is_space (hd s)" "\<not> is_space (last s)"
  then have 1: "dropWhile is_space s = s" by (simp add: dropWhile_hd)
  from a have "rev s \<noteq> []" and "\<not> is_space (hd (rev s))" by (simp_all add: hd_rev)
  then have "dropWhile is_space (rev s) = rev s" by (rule dropWhile_hd)
  with 1 show ?thesis by (simp add: strip_def)
qed

lemma not_space_slash: "\<not> is_space (CHR ''/'')"
  by (simp add: is_space_def)

lemma segments_encode:
  assumes "wf_address types root a"
  shows "segments (encode root a) = [root, page_id a, block_type a, block_id a]"
proof -
  from assms have r: "root \<noteq> []" "CHR ''/'' \<notin> set root"
    and p: "CHR ''/'' \<notin> set (page_id a)" and t: "CHR ''/'' \<notin> set (block_type a)"
    and b: "block_id a \<noteq> []" "CHR ''/'' \<notin> set (block_id a)" "\<not> is_space (last (block_id a))"
    by (simp_all add: wf_address_def segment_ok_def)
  have "strip (encode root a) = encode root a"
    using b not_space_slash by (intro strip_id) (simp_all add: encode_def)
  moreover from r have "hd root \<noteq> CHR ''/''" by (cases root) auto
  with r have "lstrip_slash (encode root a) =
      root @ CHR ''/'' # page_id a @ CHR ''/'' # block_type a @ CHR ''/'' # block_id a"
    by (cases root) (simp_all add: lstrip_slash_def encode_def)
  ultimately show ?thesis
    using r p t b by (simp add: segments_def split_append_sep split_no_sep)
qed




text \<open>
  C5. For every well-formed address, decoding its canonical text gives the
  address back.
\<close>

theorem decode_encode:
  assumes "wf_address types root a"
  shows "decode_id types (PStr (encode root a)) = Inr a"
proof -
  from assms have "page_id a \<noteq> []" "block_id a \<noteq> []" "block_type a \<in> set types"
    by (simp_all add: wf_address_def segment_ok_def)
  then show ?thesis
    by (simp add: decode_id_segments segments_encode [OF assms])
qed

theorem decode_encode_witness:
  "wf_address example_types ''page'' text_1 \<and>
   encode ''page'' text_1 = ''/page/0/Text/1'' \<and>
   decode_id example_types (PStr ''/page/0/Text/1'') = Inr text_1"
proof -
  have w: "wf_address example_types ''page'' text_1"
    by (simp add: wf_address_def segment_ok_def is_space_def example_types_def text_1_def)
  have e: "encode ''page'' text_1 = ''/page/0/Text/1''"
    by (simp add: encode_def text_1_def)
  from decode_encode [OF w] e show ?thesis using w by simp
qed

section \<open>Properties of the rewrite applier\<close>

lemmas json_simps =
  json_loads_def skip_ws_def is_json_ws_def scan_atom_def scan_nat_def is_digit_def
  digits_value_def dict_of_pairs_def

lemmas raw_simps = raw_text_1_def raw_table_2_def raw_unknown_type_def raw_truncated_def

lemma json_loads_examples:
  "json_loads raw_text_1 = Inr record_text_1"
  "json_loads raw_table_2 = Inr record_table_2"
  "json_loads raw_unknown_type = Inr record_unknown_type"
  "json_loads raw_truncated = Inl JSONDecodeError"
  by (simp_all add: raw_simps example_simps json_simps)























text \<open>The batch with the record of an unknown type, evaluated.\<close>

lemma apply_rewrites_example:
  "apply_rewrites json_loads example_types [raw_text_1, raw_unknown_type, raw_table_2]
     example_state =
   (None,
    \<lparr>doc = example_doc(text_1 \<mapsto> \<lparr>html = Some (PStr ''new 1'')\<rparr>,
                        table_2 \<mapsto> \<lparr>html = Some (PStr ''new 2'')\<rparr>),
     log = [Debug_parse_error (PStr ''/doc/p1/UnknownType/b1'') AttributeError]\<rparr>)"
  by (simp add: apply_rewrites_def json_loads_examples)
     (simp add: handle_simps example_simps)

end
